theory Spec2Isabelle
  imports Complex_Main
begin

section \<open>Data model\<close>

text \<open>
  The pipeline of \<^verbatim>\<open>feature_engineering.py\<close> works on pandas data frames. A data frame
  is modelled as the list of its rows, in row order. A \<^verbatim>\<open>datetime64[ns]\<close> value is the
  integer number of nanoseconds since the epoch; a float column is modelled by exact
  rationals (rounding is not part of the model). The maximum or minimum of an empty
  column is pandas' \<^verbatim>\<open>NaT\<close>, modelled as \<open>None\<close>. Rows whose \<^verbatim>\<open>invoice_date\<close> is
  \<^verbatim>\<open>NaT\<close> fail both comparisons of the splitter and reach neither window, so the rows
  of the model all carry a timestamp.
\<close>

type_synonym timestamp = int

definition ns_per_day :: int where
  "ns_per_day = 86400000000000"

record transaction =
  invoice :: string
  stock_code :: string
  customer_id :: int
  quantity :: int
  price :: rat
  invoice_date :: timestamp
  total_amount :: rat
  is_return :: bool

text \<open>The exceptions of a run. \<^verbatim>\<open>check_data_leakage\<close> raises \<^verbatim>\<open>ValueError\<close> with the message
  \<^verbatim>\<open>Data leakage detected\<close>; the \<^verbatim>\<open>ValueError\<close> of \<^verbatim>\<open>validate_date_column\<close> (a date column that
  is missing or not of datetime type) cannot arise on the typed rows above. The columns
  \<^verbatim>\<open>country\<close> and \<^verbatim>\<open>invoice_date_only\<close> of the input are never read and are left out.\<close>

datatype py_error = ValueError | ZeroDivisionError

section \<open>utils.py\<close>

text \<open>\<^verbatim>\<open>Series.max()\<close> and \<^verbatim>\<open>Series.min()\<close> on a timestamp column.\<close>

fun col_max :: "int list \<Rightarrow> int option" where
  "col_max [] = None"
| "col_max (x # xs) = Some (fold max xs x)"

fun col_min :: "int list \<Rightarrow> int option" where
  "col_min [] = None"
| "col_min (x # xs) = Some (fold min xs x)"

text \<open>Comparisons of two timestamps either of which may be \<^verbatim>\<open>NaT\<close>: with \<^verbatim>\<open>NaT\<close> on
  either side every comparison is false.\<close>

fun ts_ge :: "int option \<Rightarrow> int option \<Rightarrow> bool" where
  "ts_ge (Some a) (Some b) = (a \<ge> b)"
| "ts_ge _ _ = False"

fun ts_lt :: "int option \<Rightarrow> int option \<Rightarrow> bool" where
  "ts_lt (Some a) (Some b) = (a < b)"
| "ts_lt _ _ = False"

definition check_data_leakage :: "transaction list \<Rightarrow> transaction list \<Rightarrow> py_error + unit" where
  "check_data_leakage observation_df outcome_df =
     (let obs_max = col_max (map invoice_date observation_df);
          outcome_min = col_min (map invoice_date outcome_df)
      in if ts_ge obs_max outcome_min then Inl ValueError else Inr ())"

definition split_by_time_window ::
  "transaction list \<Rightarrow> timestamp \<Rightarrow> timestamp \<Rightarrow> transaction list \<times> transaction list" where
  "split_by_time_window df obs_end out_start =
     (let observation_df = filter (\<lambda>t. invoice_date t < obs_end) df;
          outcome_df = filter (\<lambda>t. invoice_date t \<ge> out_start) df
      in (observation_df, outcome_df))"

section \<open>The script: configuration\<close>

text \<open>The keys of \<^verbatim>\<open>config.yaml\<close> the script reads; the date strings are taken as
  already parsed by \<^verbatim>\<open>pd.to_datetime\<close>.\<close>

record config =
  observation_start :: timestamp
  observation_end :: timestamp
  outcome_start :: timestamp
  outcome_end :: timestamp
  min_tenure_days :: int
  min_frequency :: int
  output_path :: string

section \<open>Group-by, joins and float division\<close>

text \<open>\<^verbatim>\<open>df.groupby('customer_id')\<close>: one group per distinct key, keys ascending; the group of
  a key holds its rows in frame order.\<close>

definition group_keys :: "transaction list \<Rightarrow> int list" where
  "group_keys df = sort (remdups (map customer_id df))"

definition group_of :: "transaction list \<Rightarrow> int \<Rightarrow> transaction list" where
  "group_of df c = filter (\<lambda>t. customer_id t = c) df"

text \<open>\<^verbatim>\<open>df.groupby('customer_id').agg(...)\<close>: the aggregation applied to each group, one
  result row per key.\<close>

definition groupby_agg :: "(int \<Rightarrow> transaction list \<Rightarrow> 'r) \<Rightarrow> transaction list \<Rightarrow> 'r list" where
  "groupby_agg f df = map (\<lambda>c. f c (group_of df c)) (group_keys df)"

definition nunique :: "'a list \<Rightarrow> int" where
  "nunique xs = int (length (remdups xs))"

text \<open>A float quotient: \<open>None\<close> stands for the non-finite value (\<^verbatim>\<open>inf\<close> or \<^verbatim>\<open>nan\<close>) that
  numpy gives for a zero divisor.\<close>

definition fdiv :: "rat \<Rightarrow> rat \<Rightarrow> rat option" where
  "fdiv a b = (if b = 0 then None else Some (a / b))"

text \<open>\<^verbatim>\<open>Series.mean()\<close> of an integer column; \<open>None\<close> is \<^verbatim>\<open>NaN\<close>.\<close>

definition mean_int :: "int list \<Rightarrow> rat option" where
  "mean_int xs = (if xs = [] then None else fdiv (of_int (sum_list xs)) (of_int (int (length xs))))"

text \<open>\<^verbatim>\<open>left.merge(right, on='customer_id', how='left')\<close>: the rows of the left frame in
  order, each once per matching row of the right frame, or once with missing values when
  there is none. A right join is the left join with the frames exchanged. The inner join
  drops the left rows without a match.\<close>

definition merge_left :: "('a \<Rightarrow> int) \<Rightarrow> ('b \<Rightarrow> int) \<Rightarrow> 'a list \<Rightarrow> 'b list \<Rightarrow> ('a \<times> 'b option) list" where
  "merge_left ka kb ls rs =
     concat (map (\<lambda>l. case filter (\<lambda>r. kb r = ka l) rs of
                          [] \<Rightarrow> [(l, None)]
                        | m # ms \<Rightarrow> map (\<lambda>r. (l, Some r)) (m # ms)) ls)"

definition merge_inner :: "('a \<Rightarrow> int) \<Rightarrow> ('b \<Rightarrow> int) \<Rightarrow> 'a list \<Rightarrow> 'b list \<Rightarrow> ('a \<times> 'b) list" where
  "merge_inner ka kb ls rs =
     concat (map (\<lambda>l. map (\<lambda>r. (l, r)) (filter (\<lambda>r. kb r = ka l) rs)) ls)"

section \<open>Step 3: eligible customers\<close>

record customer_stats_row =
  cs_customer_id :: int
  first_purchase :: "timestamp option"
  n_transactions :: int

definition customer_stats_agg :: "int \<Rightarrow> transaction list \<Rightarrow> customer_stats_row" where
  "customer_stats_agg c g =
     \<lparr>cs_customer_id = c,
      first_purchase = col_min (map invoice_date g),
      n_transactions = nunique (map invoice g)\<rparr>"

definition customer_stats :: "transaction list \<Rightarrow> customer_stats_row list" where
  "customer_stats observation_df = groupby_agg customer_stats_agg observation_df"

fun ts_le :: "int option \<Rightarrow> int option \<Rightarrow> bool" where
  "ts_le (Some a) (Some b) = (a \<le> b)"
| "ts_le _ _ = False"

definition min_acquisition_date :: "config \<Rightarrow> timestamp" where
  "min_acquisition_date cfg = observation_end cfg - min_tenure_days cfg * ns_per_day"

definition eligible_customers :: "config \<Rightarrow> transaction list \<Rightarrow> int list" where
  "eligible_customers cfg observation_df =
     map cs_customer_id
       (filter (\<lambda>s. ts_le (first_purchase s) (Some (min_acquisition_date cfg))
                     \<and> n_transactions s \<ge> min_frequency cfg)
          (customer_stats observation_df))"

text \<open>\<^verbatim>\<open>observation_df[observation_df['customer_id'].isin(eligible_customers)]\<close>\<close>

definition restrict_to_eligible :: "transaction list \<Rightarrow> int list \<Rightarrow> transaction list" where
  "restrict_to_eligible observation_df eligible =
     filter (\<lambda>t. customer_id t \<in> set eligible) observation_df"

text \<open>The logged percentage \<^verbatim>\<open>(filtered_out / n_total) * 100\<close> divides two Python integers:
  with no customer in the observation window it raises \<^verbatim>\<open>ZeroDivisionError\<close>.\<close>

definition filtered_pct :: "config \<Rightarrow> transaction list \<Rightarrow> py_error + rat" where
  "filtered_pct cfg observation_df =
     (let n_total = int (length (customer_stats observation_df));
          n_eligible = int (length (eligible_customers cfg observation_df));
          filtered_out = n_total - n_eligible
      in if n_total = 0 then Inl ZeroDivisionError
         else Inr (of_int filtered_out / of_int n_total * 100))"

section \<open>Step 4: RFM metrics\<close>

record rfm_row =
  rfm_customer_id :: int
  rfm_recency :: "int option"
  rfm_frequency :: int
  rfm_monetary_net :: rat
  rfm_monetary_gross :: rat

definition rfm_agg :: "timestamp \<Rightarrow> int \<Rightarrow> transaction list \<Rightarrow> rfm_row" where
  "rfm_agg obs_end_date c g =
     \<lparr>rfm_customer_id = c,
      rfm_recency = map_option (\<lambda>m. (obs_end_date - m) div ns_per_day)
                      (col_max (map invoice_date g)),
      rfm_frequency = nunique (map invoice g),
      rfm_monetary_net = sum_list (map total_amount g),
      rfm_monetary_gross = sum_list (filter (\<lambda>x. x > 0) (map total_amount g))\<rparr>"

definition rfm :: "timestamp \<Rightarrow> transaction list \<Rightarrow> rfm_row list" where
  "rfm obs_end_date observation_df = groupby_agg (rfm_agg obs_end_date) observation_df"

section \<open>Step 5: behavioural features\<close>

text \<open>The summed quantity of each invoice of a customer, given the customer's lines with a
  positive quantity. The mean taken of these sums does not depend on their order.\<close>

definition basket_sizes :: "transaction list \<Rightarrow> int list" where
  "basket_sizes g =
     map (\<lambda>i. sum_list (map quantity (filter (\<lambda>t. invoice t = i) g)))
         (remdups (map invoice g))"

record basket_row =
  bm_customer_id :: int
  bm_avg_items_per_basket :: "rat option"
  bm_avg_units_per_line :: "rat option"

definition basket_agg :: "int \<Rightarrow> transaction list \<Rightarrow> basket_row" where
  "basket_agg c g =
     \<lparr>bm_customer_id = c,
      bm_avg_items_per_basket = mean_int (basket_sizes g),
      bm_avg_units_per_line = mean_int (map quantity g)\<rparr>"

definition basket_metrics :: "transaction list \<Rightarrow> basket_row list" where
  "basket_metrics observation_df =
     groupby_agg basket_agg (filter (\<lambda>t. quantity t > 0) observation_df)"

record behavioral_agg =
  ba_customer_id :: int
  ba_unique_products :: int
  ba_first_purchase_date :: "timestamp option"
  ba_last_purchase_date :: "timestamp option"

definition behavioral_agg :: "int \<Rightarrow> transaction list \<Rightarrow> behavioral_agg" where
  "behavioral_agg c g =
     \<lparr>ba_customer_id = c,
      ba_unique_products = nunique (map stock_code g),
      ba_first_purchase_date = col_min (map invoice_date g),
      ba_last_purchase_date = col_max (map invoice_date g)\<rparr>"

text \<open>\<^verbatim>\<open>(last - first).dt.days\<close>: the whole days of the difference, rounded down.\<close>

fun days_between :: "timestamp option \<Rightarrow> timestamp option \<Rightarrow> int option" where
  "days_between (Some l) (Some f) = Some ((l - f) div ns_per_day)"
| "days_between _ _ = None"

record behavioral_row =
  bh_customer_id :: int
  bh_unique_products :: int
  bh_first_purchase_date :: "timestamp option"
  bh_last_purchase_date :: "timestamp option"
  bh_avg_items_per_basket :: "rat option"
  bh_avg_units_per_line :: "rat option"
  bh_days_as_customer :: "int option"
  bh_purchase_velocity :: "rat option"
  bh_avg_days_between_purchases :: "rat option"

definition behavioral_of :: "behavioral_agg \<Rightarrow> basket_row option \<Rightarrow> rfm_row \<Rightarrow> behavioral_row" where
  "behavioral_of a b r =
     (let days_as_customer = days_between (ba_last_purchase_date a) (ba_first_purchase_date a);
          frequency = rfm_frequency r
      in \<lparr>bh_customer_id = ba_customer_id a,
          bh_unique_products = ba_unique_products a,
          bh_first_purchase_date = ba_first_purchase_date a,
          bh_last_purchase_date = ba_last_purchase_date a,
          bh_avg_items_per_basket = Option.bind b bm_avg_items_per_basket,
          bh_avg_units_per_line = Option.bind b bm_avg_units_per_line,
          bh_days_as_customer = days_as_customer,
          bh_purchase_velocity =
            Option.bind days_as_customer
              (\<lambda>d. fdiv (of_int frequency) (of_int (d + 1) / 30)),
          bh_avg_days_between_purchases =
            Option.bind days_as_customer
              (\<lambda>d. fdiv (of_int (d + 1)) (of_int frequency))\<rparr>)"

definition behavioral :: "transaction list \<Rightarrow> rfm_row list \<Rightarrow> behavioral_row list" where
  "behavioral observation_df rfm_tbl =
     map (\<lambda>((a, b), r). behavioral_of a b r)
       (merge_inner (\<lambda>(a, b). ba_customer_id a) rfm_customer_id
          (merge_left ba_customer_id bm_customer_id
             (groupby_agg behavioral_agg observation_df) (basket_metrics observation_df))
          rfm_tbl)"

section \<open>Step 6: return metrics\<close>

definition return_invoices :: "transaction list \<Rightarrow> (int \<times> int) list" where
  "return_invoices observation_df =
     groupby_agg (\<lambda>c g. (c, nunique (map invoice g))) (filter is_return observation_df)"

definition return_amount_series :: "transaction list \<Rightarrow> (int \<times> rat) list" where
  "return_amount_series observation_df =
     groupby_agg (\<lambda>c g. (c, \<bar>sum_list (map total_amount g)\<bar>)) (filter is_return observation_df)"

text \<open>\<^verbatim>\<open>return_amount.reindex(return_invoices.index, fill_value=0)\<close>\<close>

definition reindex0 :: "(int \<times> rat) list \<Rightarrow> int \<Rightarrow> rat" where
  "reindex0 series c = (case map_of series c of None \<Rightarrow> 0 | Some v \<Rightarrow> v)"

record returns_raw =
  rr_customer_id :: int
  rr_n_return_invoices :: int
  rr_return_amount :: rat

definition returns_raw :: "transaction list \<Rightarrow> returns_raw list" where
  "returns_raw observation_df =
     map (\<lambda>(c, n). \<lparr>rr_customer_id = c,
                     rr_n_return_invoices = n,
                     rr_return_amount = reindex0 (return_amount_series observation_df) c\<rparr>)
         (return_invoices observation_df)"

record returns_row =
  rt_customer_id :: int
  rt_n_return_invoices :: int
  rt_return_amount :: rat
  rt_return_rate :: "rat option"
  rt_has_returns :: bool

definition returns_of :: "rfm_row \<Rightarrow> returns_raw option \<Rightarrow> returns_row" where
  "returns_of r x =
     (let n_return_invoices = (case x of None \<Rightarrow> 0 | Some y \<Rightarrow> rr_n_return_invoices y);
          return_amount = (case x of None \<Rightarrow> 0 | Some y \<Rightarrow> rr_return_amount y)
      in \<lparr>rt_customer_id = rfm_customer_id r,
          rt_n_return_invoices = n_return_invoices,
          rt_return_amount = return_amount,
          rt_return_rate = fdiv (of_int n_return_invoices) (of_int (rfm_frequency r)),
          rt_has_returns = (n_return_invoices > 0)\<rparr>)"

definition returns :: "transaction list \<Rightarrow> rfm_row list \<Rightarrow> returns_row list" where
  "returns observation_df rfm_tbl =
     map (\<lambda>(r, x). returns_of r x)
       (merge_left rfm_customer_id rr_customer_id rfm_tbl (returns_raw observation_df))"

section \<open>Step 7: churn labels\<close>

definition purchase_customers :: "transaction list \<Rightarrow> int list" where
  "purchase_customers outcome_df =
     remdups (map customer_id (filter (\<lambda>t. quantity t > 0) outcome_df))"

record churn_row =
  cl_customer_id :: int
  cl_churned :: int

definition churn_labels :: "int list \<Rightarrow> transaction list \<Rightarrow> churn_row list" where
  "churn_labels eligible outcome_df =
     map (\<lambda>c. \<lparr>cl_customer_id = c,
                cl_churned = (if \<not> (c \<in> set (purchase_customers outcome_df)) then 1 else 0)\<rparr>)
         eligible"

section \<open>Step 8: the merged feature table\<close>

text \<open>A column that a left join can leave missing is an option; the two basket columns are
  filled with 0 after the joins.\<close>

record feature_row =
  feat_customer_id :: int
  recency :: "int option"
  frequency :: int
  monetary_net :: rat
  monetary_gross :: rat
  unique_products :: "int option"
  first_purchase_date :: "timestamp option"
  last_purchase_date :: "timestamp option"
  avg_items_per_basket :: rat
  avg_units_per_line :: rat
  days_as_customer :: "int option"
  purchase_velocity :: "rat option"
  avg_days_between_purchases :: "rat option"
  n_return_invoices :: "int option"
  return_amount :: "rat option"
  return_rate :: "rat option"
  has_returns :: "bool option"
  churned :: "int option"

definition fillna0 :: "rat option \<Rightarrow> rat" where
  "fillna0 x = (case x of None \<Rightarrow> 0 | Some v \<Rightarrow> v)"

definition feature_of ::
  "rfm_row \<Rightarrow> behavioral_row option \<Rightarrow> returns_row option \<Rightarrow> churn_row option \<Rightarrow> feature_row" where
  "feature_of r b t l =
     \<lparr>feat_customer_id = rfm_customer_id r,
      recency = rfm_recency r,
      frequency = rfm_frequency r,
      monetary_net = rfm_monetary_net r,
      monetary_gross = rfm_monetary_gross r,
      unique_products = map_option bh_unique_products b,
      first_purchase_date = Option.bind b bh_first_purchase_date,
      last_purchase_date = Option.bind b bh_last_purchase_date,
      avg_items_per_basket = fillna0 (Option.bind b bh_avg_items_per_basket),
      avg_units_per_line = fillna0 (Option.bind b bh_avg_units_per_line),
      days_as_customer = Option.bind b bh_days_as_customer,
      purchase_velocity = Option.bind b bh_purchase_velocity,
      avg_days_between_purchases = Option.bind b bh_avg_days_between_purchases,
      n_return_invoices = map_option rt_n_return_invoices t,
      return_amount = map_option rt_return_amount t,
      return_rate = Option.bind t rt_return_rate,
      has_returns = map_option rt_has_returns t,
      churned = map_option cl_churned l\<rparr>"

definition merge_features ::
  "rfm_row list \<Rightarrow> behavioral_row list \<Rightarrow> returns_row list \<Rightarrow> churn_row list \<Rightarrow> feature_row list" where
  "merge_features rfm_tbl behavioral_tbl returns_tbl churn_tbl =
     map (\<lambda>(((r, b), t), l). feature_of r b t l)
       (merge_left (\<lambda>((r, b), t). rfm_customer_id r) cl_customer_id
          (merge_left (\<lambda>(r, b). rfm_customer_id r) rt_customer_id
             (merge_left rfm_customer_id bh_customer_id rfm_tbl behavioral_tbl)
             returns_tbl)
          churn_tbl)"

text \<open>Steps 3 to 8 on the two windows.\<close>

definition features :: "config \<Rightarrow> transaction list \<Rightarrow> transaction list \<Rightarrow> feature_row list" where
  "features cfg observation_df outcome_df =
     (let eligible = eligible_customers cfg observation_df;
          observation_df' = restrict_to_eligible observation_df eligible;
          rfm_tbl = rfm (observation_end cfg) observation_df';
          behavioral_tbl = behavioral observation_df' rfm_tbl;
          returns_tbl = returns observation_df' rfm_tbl;
          churn_tbl = churn_labels eligible outcome_df
      in merge_features rfm_tbl behavioral_tbl returns_tbl churn_tbl)"

section \<open>Steps 9 to 11: quality checks, report, export\<close>

datatype level = INFO | WARN | ERROR

datatype message =
    NegativeRecency
  | ZeroFrequency nat
  | MissingChurnLabels nat
  | DuplicateCustomerIds
  | NegativeMonetaryGross
  | SerialReturners nat

text \<open>\<^verbatim>\<open>features['recency'] < 0\<close> on a column that may hold missing values.\<close>

fun lt0 :: "int option \<Rightarrow> bool" where
  "lt0 (Some r) = (r < 0)"
| "lt0 None = False"

text \<open>The checks of step 9 print through \<^verbatim>\<open>log_error\<close>, \<^verbatim>\<open>log_warn\<close> and \<^verbatim>\<open>log_info\<close>,
  which only print; the result is the list of the lines printed.\<close>

definition quality_checks :: "feature_row list \<Rightarrow> (level \<times> message) list" where
  "quality_checks fs =
     (if list_ex (\<lambda>r. lt0 (recency r)) fs then [(ERROR, NegativeRecency)] else []) @
     (if list_ex (\<lambda>r. frequency r = 0) fs
      then [(WARN, ZeroFrequency (length (filter (\<lambda>r. frequency r = 0) fs)))] else []) @
     (if list_ex (\<lambda>r. churned r = None) fs
      then [(ERROR, MissingChurnLabels (length (filter (\<lambda>r. churned r = None) fs)))] else []) @
     (if \<not> distinct (map feat_customer_id fs) then [(ERROR, DuplicateCustomerIds)] else []) @
     (if list_ex (\<lambda>r. monetary_gross r < 0) fs then [(ERROR, NegativeMonetaryGross)] else []) @
     (let neg_monetary = length (filter (\<lambda>r. monetary_net r < 0) fs)
      in if neg_monetary > 0 then [(INFO, SerialReturners neg_monetary)] else [])"

text \<open>\<^verbatim>\<open>generate_feature_report\<close> formats summary statistics. Its churn rate is
  \<^verbatim>\<open>churn_dist.get(1, 0) / len(df)\<close>: on an empty table both are the Python integer 0 and
  the division raises. The text of the report is not modelled.\<close>

definition generate_feature_report :: "feature_row list \<Rightarrow> py_error + unit" where
  "generate_feature_report df = (if length df = 0 then Inl ZeroDivisionError else Inr ())"

text \<open>The output directory as a map from paths to the tables stored there.
  \<^verbatim>\<open>to_csv\<close> replaces the file at its path.\<close>

type_synonym store = "string \<Rightarrow> feature_row list option"

definition to_csv :: "feature_row list \<Rightarrow> string \<Rightarrow> store \<Rightarrow> store" where
  "to_csv fs path st = st(path \<mapsto> fs)"

text \<open>Steps 9 to 11 on a feature table: the lines logged by the checks, then either the
  error raised or the store after the export.\<close>

definition check_report_export ::
  "string \<Rightarrow> feature_row list \<Rightarrow> store \<Rightarrow> (level \<times> message) list \<times> (py_error + store)" where
  "check_report_export path fs st =
     (let logged = quality_checks fs
      in case generate_feature_report fs of
           Inl e \<Rightarrow> (logged, Inl e)
         | Inr _ \<Rightarrow> (logged, Inr (to_csv fs path st)))"

section \<open>The whole script\<close>

text \<open>The module-level script from the split to the export, on the cleaned transactions
  \<open>df\<close> and the store of output files. The result holds the lines printed by the quality
  checks (the progress lines that \<^verbatim>\<open>log_info\<close> prints elsewhere are not recorded) and either
  the exception that ended the run or the store after the export.\<close>

definition run_pipeline ::
  "config \<Rightarrow> transaction list \<Rightarrow> store \<Rightarrow> (level \<times> message) list \<times> (py_error + store)" where
  "run_pipeline cfg df st =
     (let (observation_df, outcome_df) =
            split_by_time_window df (observation_end cfg) (outcome_start cfg)
      in case check_data_leakage observation_df outcome_df of
           Inl e \<Rightarrow> ([], Inl e)
         | Inr _ \<Rightarrow>
             (case filtered_pct cfg observation_df of
                Inl e \<Rightarrow> ([], Inl e)
              | Inr _ \<Rightarrow>
                  check_report_export (output_path cfg)
                    (features cfg observation_df outcome_df) st))"


section \<open>The feature row of one customer\<close>

text \<open>The row that steps 4 to 8 produce for a customer, written from the customer's own
  observation lines; the proofs below show that the merged table is this row for each
  eligible customer.\<close>

definition feature_at :: "config \<Rightarrow> transaction list \<Rightarrow> transaction list \<Rightarrow> int \<Rightarrow> feature_row" where
  "feature_at cfg observation_df outcome_df c =
     (let g = group_of observation_df c;
          r = rfm_agg (observation_end cfg) c g;
          pos = filter (\<lambda>t. quantity t > 0) g;
          ret = filter is_return g
      in feature_of r
           (Some (behavioral_of (behavioral_agg c g)
                    (if pos = [] then None else Some (basket_agg c pos)) r))
           (Some (returns_of r
                    (if ret = [] then None
                     else Some \<lparr>rr_customer_id = c,
                                rr_n_return_invoices = nunique (map invoice ret),
                                rr_return_amount = \<bar>sum_list (map total_amount ret)\<bar>\<rparr>)))
           (Some \<lparr>cl_customer_id = c,
                  cl_churned = (if \<not> (c \<in> set (purchase_customers outcome_df)) then 1 else 0)\<rparr>))"

section \<open>Example data\<close>

text \<open>A line as the upstream cleaning stage delivers it: the amount is quantity times price
  and the return flag follows the sign of the quantity. The date is given in days.\<close>

definition cleaned_line :: "string \<Rightarrow> string \<Rightarrow> int \<Rightarrow> int \<Rightarrow> rat \<Rightarrow> int \<Rightarrow> transaction" where
  "cleaned_line inv_no code cust qty pr d =
     \<lparr>invoice = inv_no, stock_code = code, customer_id = cust, quantity = qty, price = pr,
      invoice_date = d * ns_per_day, total_amount = of_int qty * pr, is_return = (qty < 0)\<rparr>"

definition ex_cfg :: config where
  "ex_cfg = \<lparr>observation_start = 0, observation_end = 500 * ns_per_day,
             outcome_start = 500 * ns_per_day, outcome_end = 700 * ns_per_day,
             min_tenure_days = 90, min_frequency = 2,
             output_path = ''data/processed/customers_features.csv''\<rparr>"

text \<open>Customer 1 is the scenario of the specification (two lines on invoice A, a return
  on invoice B twelve days before the cut-off) and buys again in the outcome window;
  customer 2 only returns there; customer 3 has a single invoice.\<close>

definition ex_df :: "transaction list" where
  "ex_df =
     [cleaned_line ''A'' ''p1'' 1 2 5 100,
      cleaned_line ''A'' ''p2'' 1 3 5 100,
      cleaned_line ''B'' ''p1'' 1 (-1) 5 488,
      cleaned_line ''D'' ''p1'' 2 4 2 50,
      cleaned_line ''E'' ''p3'' 2 1 7 60,
      cleaned_line ''F'' ''p1'' 3 1 5 10,
      cleaned_line ''G'' ''p2'' 1 2 5 520,
      cleaned_line ''H'' ''p1'' 2 (-3) 2 510]"

definition ex_obs :: "transaction list" where
  "ex_obs = fst (split_by_time_window ex_df (observation_end ex_cfg) (outcome_start ex_cfg))"

definition ex_out :: "transaction list" where
  "ex_out = snd (split_by_time_window ex_df (observation_end ex_cfg) (outcome_start ex_cfg))"

text \<open>The same transactions under a configuration whose outcome window starts before the
  observation window ends, and under one whose outcome window starts after the last
  transaction.\<close>

definition ex_leak_cfg :: config where
  "ex_leak_cfg = ex_cfg\<lparr>outcome_start := 480 * ns_per_day\<rparr>"

definition ex_late_cfg :: config where
  "ex_late_cfg = ex_cfg\<lparr>outcome_start := 1000 * ns_per_day\<rparr>"

text \<open>The conditions that step 9 reports through \<^verbatim>\<open>log_error\<close>.\<close>

definition fatal_check_fails :: "feature_row list \<Rightarrow> bool" where
  "fatal_check_fails fs \<longleftrightarrow>
     list_ex (\<lambda>r. lt0 (recency r)) fs \<or> list_ex (\<lambda>r. churned r = None) fs \<or>
     \<not> distinct (map feat_customer_id fs) \<or> list_ex (\<lambda>r. monetary_gross r < 0) fs"


text \<open>What a run leaves behind: the error it raised, if any, and the table found at a path
  of the store when it ended normally.\<close>

definition raised :: "(level \<times> message) list \<times> (py_error + store) \<Rightarrow> py_error option" where
  "raised r = (case snd r of Inl e \<Rightarrow> Some e | Inr st \<Rightarrow> None)"


definition empty_store :: store where
  "empty_store = (\<lambda>path. None)"



text \<open>The feature table of the example.\<close>

definition ex_features :: "feature_row list" where
  "ex_features = features ex_cfg ex_obs ex_out"

section \<open>Column helpers\<close>

lemma fold_max_eq_Max: "fold max xs (x::int) = Max (set (x # xs))"
  by (rule Max.set_eq_fold [symmetric])

lemma fold_min_eq_Min: "fold min xs (x::int) = Min (set (x # xs))"
  by (rule Min.set_eq_fold [symmetric])

lemma col_max_eq: "xs \<noteq> [] \<Longrightarrow> col_max xs = Some (Max (set xs))"
  by (cases xs) (simp_all only: col_max.simps fold_max_eq_Max, simp)

lemma col_min_eq: "xs \<noteq> [] \<Longrightarrow> col_min xs = Some (Min (set xs))"
  by (cases xs) (simp_all only: col_min.simps fold_min_eq_Min, simp)

lemma col_max_None [simp]: "col_max xs = None \<longleftrightarrow> xs = []"
  by (cases xs) simp_all

lemma col_min_None [simp]: "col_min xs = None \<longleftrightarrow> xs = []"
  by (cases xs) simp_all

lemma ts_ge_iff: "ts_ge a b \<longleftrightarrow> (\<exists>x y. a = Some x \<and> b = Some y \<and> y \<le> x)"
  by (cases a; cases b) auto

lemma ts_le_iff: "ts_le a b \<longleftrightarrow> (\<exists>x y. a = Some x \<and> b = Some y \<and> x \<le> y)"
  by (cases a; cases b) auto

section \<open>Group-by\<close>

lemma set_group_keys: "set (group_keys df) = customer_id ` set df"
  by (simp add: group_keys_def)

lemma distinct_group_keys [simp]: "distinct (group_keys df)"
  by (simp add: group_keys_def)

lemma sorted_group_keys [simp]: "sorted (group_keys df)"
  by (simp add: group_keys_def)

lemma group_of_filter: "group_of (filter P df) c = filter P (group_of df c)"
  by (induction df) (simp_all add: group_of_def)

lemma set_group_of [simp]: "set (group_of df c) = {t \<in> set df. customer_id t = c}"
  by (simp add: group_of_def)

lemma group_of_empty_iff: "group_of df c = [] \<longleftrightarrow> c \<notin> customer_id ` set df"
  by (auto simp: group_of_def filter_empty_conv)

lemma mem_group_keys_filter:
  "c \<in> set (group_keys (filter P df)) \<longleftrightarrow> filter P (group_of df c) \<noteq> []"
  by (auto simp: set_group_keys group_of_def filter_empty_conv)

lemma nunique_card: "nunique xs = int (card (set xs))"
  by (simp add: nunique_def length_remdups_card_conv)

lemma key_of_agg [simp]:
  "ba_customer_id (behavioral_agg c g) = c"
  "rfm_customer_id (rfm_agg oe c g) = c"
  "bm_customer_id (basket_agg c g) = c"
  "cs_customer_id (customer_stats_agg c g) = c"
  by (simp_all add: behavioral_agg_def rfm_agg_def basket_agg_def customer_stats_agg_def)

section \<open>Joins against a table with one row per key\<close>

lemma filter_key_map:
  assumes "distinct ks" and "\<And>c. kb (g c) = c"
  shows "filter (\<lambda>r. kb r = k) (map g ks) = (if k \<in> set ks then [g k] else [])"
  using assms(1)
proof (induction ks)
  case Nil
  then show ?case by simp
next
  case (Cons a ks)
  then show ?case by (auto simp: assms(2))
qed

lemma merge_left_map:
  assumes "distinct ks" and "\<And>c. kb (g c) = c"
  shows "merge_left ka kb ls (map g ks) =
           map (\<lambda>l. (l, if ka l \<in> set ks then Some (g (ka l)) else None)) ls"
  by (induction ls) (simp_all add: merge_left_def filter_key_map [of ks kb g, OF assms])

lemma merge_inner_map:
  assumes "distinct ks" and "\<And>c. kb (g c) = c" and "\<And>l. l \<in> set ls \<Longrightarrow> ka l \<in> set ks"
  shows "merge_inner ka kb ls (map g ks) = map (\<lambda>l. (l, g (ka l))) ls"
  using assms(3)
  by (induction ls) (simp_all add: merge_inner_def filter_key_map [of ks kb g, OF assms(1,2)])

section \<open>Eligible customers\<close>

lemma eligible_customers_filter:
  "eligible_customers cfg obs =
     filter (\<lambda>c. ts_le (col_min (map invoice_date (group_of obs c))) (Some (min_acquisition_date cfg))
                  \<and> min_frequency cfg \<le> nunique (map invoice (group_of obs c)))
       (group_keys obs)"
  by (induction "group_keys obs")
     (simp_all add: eligible_customers_def customer_stats_def groupby_agg_def
        customer_stats_agg_def filter_map comp_def)

lemma distinct_eligible [simp]: "distinct (eligible_customers cfg obs)"
  by (simp add: eligible_customers_filter)

lemma sorted_eligible [simp]: "sorted (eligible_customers cfg obs)"
  by (simp add: eligible_customers_filter sorted_wrt_filter)

lemma eligible_subset: "c \<in> set (eligible_customers cfg obs) \<Longrightarrow> c \<in> customer_id ` set obs"
  by (simp add: eligible_customers_filter set_group_keys)

lemma group_keys_restrict:
  "group_keys (restrict_to_eligible obs (eligible_customers cfg obs)) = eligible_customers cfg obs"
proof (rule sorted_distinct_set_unique)
  show "set (group_keys (restrict_to_eligible obs (eligible_customers cfg obs)))
        = set (eligible_customers cfg obs)"
    using eligible_subset [of _ cfg obs] by (auto simp: set_group_keys restrict_to_eligible_def)
qed simp_all

lemma group_of_restrict:
  "c \<in> set eligible \<Longrightarrow> group_of (restrict_to_eligible obs eligible) c = group_of obs c"
  unfolding restrict_to_eligible_def group_of_def filter_filter
  by (rule filter_cong) auto

lemma groupby_agg_restrict:
  "groupby_agg f (restrict_to_eligible obs (eligible_customers cfg obs)) =
     map (\<lambda>c. f c (group_of obs c)) (eligible_customers cfg obs)"
  by (simp add: groupby_agg_def group_keys_restrict group_of_restrict)


section \<open>The merged table, row by row\<close>

lemma basket_join:
  "merge_left ba_customer_id bm_customer_id
     (map (\<lambda>c. behavioral_agg c (group_of obs c)) E)
     (basket_metrics (restrict_to_eligible obs E)) =
   map (\<lambda>c. (behavioral_agg c (group_of obs c),
              if filter (\<lambda>t. quantity t > 0) (group_of obs c) = [] then None
              else Some (basket_agg c (filter (\<lambda>t. quantity t > 0) (group_of obs c))))) E"
proof -
  let ?O = "restrict_to_eligible obs E"
  let ?pos = "filter (\<lambda>t. quantity t > 0) ?O"
  have "merge_left ba_customer_id bm_customer_id
          (map (\<lambda>c. behavioral_agg c (group_of obs c)) E)
          (map (\<lambda>c. basket_agg c (group_of ?pos c)) (group_keys ?pos)) =
        map (\<lambda>l. (l, if ba_customer_id l \<in> set (group_keys ?pos)
                      then Some (basket_agg (ba_customer_id l) (group_of ?pos (ba_customer_id l)))
                      else None))
          (map (\<lambda>c. behavioral_agg c (group_of obs c)) E)"
    by (rule merge_left_map) (simp_all add: basket_agg_def)
  also have "\<dots> = map (\<lambda>c. (behavioral_agg c (group_of obs c),
              if filter (\<lambda>t. quantity t > 0) (group_of obs c) = [] then None
              else Some (basket_agg c (filter (\<lambda>t. quantity t > 0) (group_of obs c))))) E"
    unfolding map_map comp_def
    by (rule map_cong [OF refl])
       (simp add: behavioral_agg_def mem_group_keys_filter group_of_filter group_of_restrict)
  finally show ?thesis
    by (simp add: basket_metrics_def groupby_agg_def)
qed


lemma behavioral_rows:
  assumes "distinct E"
    and keys: "groupby_agg behavioral_agg (restrict_to_eligible obs E) =
              map (\<lambda>c. behavioral_agg c (group_of obs c)) E"
  shows "behavioral (restrict_to_eligible obs E)
           (map (\<lambda>c. rfm_agg oe c (group_of obs c)) E) =
         map (\<lambda>c. behavioral_of (behavioral_agg c (group_of obs c))
                     (if filter (\<lambda>t. quantity t > 0) (group_of obs c) = [] then None
                      else Some (basket_agg c (filter (\<lambda>t. quantity t > 0) (group_of obs c))))
                     (rfm_agg oe c (group_of obs c))) E"
proof -
  let ?LB = "map (\<lambda>c. (behavioral_agg c (group_of obs c),
              if filter (\<lambda>t. quantity t > 0) (group_of obs c) = [] then None
              else Some (basket_agg c (filter (\<lambda>t. quantity t > 0) (group_of obs c))))) E"
  have "merge_inner (\<lambda>(a, b). ba_customer_id a) rfm_customer_id ?LB
          (map (\<lambda>c. rfm_agg oe c (group_of obs c)) E) =
        map (\<lambda>l. (l, rfm_agg oe ((\<lambda>(a, b). ba_customer_id a) l)
                        (group_of obs ((\<lambda>(a, b). ba_customer_id a) l)))) ?LB"
    by (rule merge_inner_map) (auto simp: assms rfm_agg_def behavioral_agg_def)
  then show ?thesis
    by (simp add: behavioral_def keys basket_join comp_def)
qed


lemma reindex0_groupby:
  "reindex0 (groupby_agg (\<lambda>c g. (c, f g)) df) c =
     (if c \<in> set (group_keys df) then f (group_of df c) else 0)"
  by (simp add: reindex0_def groupby_agg_def map_of_map_restrict restrict_map_def)

lemma returns_raw_rows:
  "returns_raw df =
     map (\<lambda>c. \<lparr>rr_customer_id = c,
                rr_n_return_invoices = nunique (map invoice (filter is_return (group_of df c))),
                rr_return_amount = \<bar>sum_list (map total_amount (filter is_return (group_of df c)))\<bar>\<rparr>)
         (group_keys (filter is_return df))"
  unfolding returns_raw_def return_invoices_def return_amount_series_def
  by (simp add: reindex0_groupby) (simp add: groupby_agg_def group_of_filter)

lemma returns_rows:
  "returns (restrict_to_eligible obs E) (map (\<lambda>c. rfm_agg oe c (group_of obs c)) E) =
   map (\<lambda>c. returns_of (rfm_agg oe c (group_of obs c))
               (if filter is_return (group_of obs c) = [] then None
                else Some \<lparr>rr_customer_id = c,
                           rr_n_return_invoices = nunique (map invoice (filter is_return (group_of obs c))),
                           rr_return_amount = \<bar>sum_list (map total_amount (filter is_return (group_of obs c)))\<bar>\<rparr>)) E"
proof -
  let ?O = "restrict_to_eligible obs E"
  let ?G = "\<lambda>c. \<lparr>rr_customer_id = c,
                rr_n_return_invoices = nunique (map invoice (filter is_return (group_of ?O c))),
                rr_return_amount = \<bar>sum_list (map total_amount (filter is_return (group_of ?O c)))\<bar>\<rparr>"
  let ?R = "\<lambda>c. rfm_agg oe c (group_of obs c)"
  have "merge_left rfm_customer_id rr_customer_id (map ?R E)
          (map ?G (group_keys (filter is_return ?O))) =
        map (\<lambda>l. (l, if rfm_customer_id l \<in> set (group_keys (filter is_return ?O))
                      then Some (?G (rfm_customer_id l)) else None)) (map ?R E)"
    by (rule merge_left_map) simp_all
  then have "returns ?O (map ?R E) =
        map (\<lambda>c. returns_of (?R c)
                    (if c \<in> set (group_keys (filter is_return ?O)) then Some (?G c) else None)) E"
    by (simp add: returns_def returns_raw_rows comp_def rfm_agg_def)
  also have "\<dots> = map (\<lambda>c. returns_of (?R c)
               (if filter is_return (group_of obs c) = [] then None
                else Some \<lparr>rr_customer_id = c,
                           rr_n_return_invoices = nunique (map invoice (filter is_return (group_of obs c))),
                           rr_return_amount = \<bar>sum_list (map total_amount (filter is_return (group_of obs c)))\<bar>\<rparr>)) E"
    by (rule map_cong [OF refl])
       (simp add: mem_group_keys_filter group_of_restrict)
  finally show ?thesis .
qed

lemma merge_features_rows:
  assumes "distinct E"
    and "\<And>c. rfm_customer_id (R c) = c" and "\<And>c. bh_customer_id (B c) = c"
    and "\<And>c. rt_customer_id (T c) = c" and "\<And>c. cl_customer_id (L c) = c"
  shows "merge_features (map R E) (map B E) (map T E) (map L E) =
         map (\<lambda>c. feature_of (R c) (Some (B c)) (Some (T c)) (Some (L c))) E"
proof -
  have 1: "merge_left rfm_customer_id bh_customer_id (map R E) (map B E) =
           map (\<lambda>c. (R c, Some (B c))) E"
    by (simp add: merge_left_map [of E bh_customer_id B] assms comp_def)
  have 2: "merge_left (\<lambda>(r, b). rfm_customer_id r) rt_customer_id
             (map (\<lambda>c. (R c, Some (B c))) E) (map T E) =
           map (\<lambda>c. ((R c, Some (B c)), Some (T c))) E"
    by (simp add: merge_left_map [of E rt_customer_id T] assms comp_def)
  have 3: "merge_left (\<lambda>((r, b), t). rfm_customer_id r) cl_customer_id
             (map (\<lambda>c. ((R c, Some (B c)), Some (T c))) E) (map L E) =
           map (\<lambda>c. (((R c, Some (B c)), Some (T c)), Some (L c))) E"
    by (simp add: merge_left_map [of E cl_customer_id L] assms comp_def)
  show ?thesis
    by (simp add: merge_features_def 1 2 3 comp_def)
qed

lemma features_eq:
  "features cfg obs out = map (feature_at cfg obs out) (eligible_customers cfg obs)"
proof -
  let ?E = "eligible_customers cfg obs"
  have keys: "groupby_agg behavioral_agg (restrict_to_eligible obs ?E) =
              map (\<lambda>c. behavioral_agg c (group_of obs c)) ?E"
    by (rule groupby_agg_restrict)
  have rfm_eq: "rfm (observation_end cfg) (restrict_to_eligible obs ?E) =
                map (\<lambda>c. rfm_agg (observation_end cfg) c (group_of obs c)) ?E"
    unfolding rfm_def by (rule groupby_agg_restrict)
  have churn_eq: "churn_labels ?E out =
     map (\<lambda>c. \<lparr>cl_customer_id = c,
                cl_churned = (if \<not> (c \<in> set (purchase_customers out)) then 1 else 0)\<rparr>) ?E"
    by (simp add: churn_labels_def)
  show ?thesis
    unfolding features_def Let_def rfm_eq churn_eq
      behavioral_rows [OF distinct_eligible keys] returns_rows
    by (subst merge_features_rows)
       (simp_all add: rfm_agg_def behavioral_of_def returns_of_def behavioral_agg_def
          feature_at_def Let_def)
qed

section \<open>The leakage guard\<close>

lemma leakage_iff:
  "check_data_leakage obs out = Inl ValueError \<longleftrightarrow>
     (\<exists>a\<in>set obs. \<exists>b\<in>set out. invoice_date b \<le> invoice_date a)"
proof (cases "obs = [] \<or> out = []")
  case True
  then show ?thesis
    by (auto simp: check_data_leakage_def Let_def ts_ge_iff)
next
  case False
  then have ne: "map invoice_date obs \<noteq> []" "map invoice_date out \<noteq> []" by simp_all
  have fin: "finite (invoice_date ` set obs)" "finite (invoice_date ` set out)" by simp_all
  have "check_data_leakage obs out = Inl ValueError \<longleftrightarrow>
          Min (invoice_date ` set out) \<le> Max (invoice_date ` set obs)"
    using ne by (simp add: check_data_leakage_def Let_def col_max_eq col_min_eq)
  also have "\<dots> \<longleftrightarrow> (\<exists>a\<in>set obs. \<exists>b\<in>set out. invoice_date b \<le> invoice_date a)"
    using False fin by (auto simp: Min_le_iff Max_ge_iff)
  finally show ?thesis .
qed

lemma leakage_max_min:
  assumes "obs \<noteq> []" "out \<noteq> []"
  shows "check_data_leakage obs out = Inl ValueError \<longleftrightarrow>
     \<not> Max (invoice_date ` set obs) < Min (invoice_date ` set out)"
proof -
  have "\<not> Max (invoice_date ` set obs) < Min (invoice_date ` set out) \<longleftrightarrow>
        (\<exists>a\<in>set obs. \<exists>b\<in>set out. invoice_date b \<le> invoice_date a)"
    using assms by (auto simp: not_less)
  then show ?thesis by (simp only: leakage_iff)
qed

lemma leakage_empty: "obs = [] \<or> out = [] \<Longrightarrow> check_data_leakage obs out = Inr ()"
  by (auto simp: check_data_leakage_def Let_def)

lemma filtered_pct_not_ValueError: "filtered_pct cfg obs \<noteq> Inl ValueError"
  by (simp add: filtered_pct_def Let_def)

lemma check_report_export_not_ValueError: "snd (check_report_export p fs st) \<noteq> Inl ValueError"
  by (simp add: check_report_export_def generate_feature_report_def Let_def)

lemma run_pipeline_ValueError:
  "snd (run_pipeline cfg df st) = Inl ValueError \<longleftrightarrow>
   check_data_leakage (filter (\<lambda>t. invoice_date t < observation_end cfg) df)
                      (filter (\<lambda>t. outcome_start cfg \<le> invoice_date t) df) = Inl ValueError"
  using check_report_export_not_ValueError filtered_pct_not_ValueError
  by (auto simp: run_pipeline_def split_by_time_window_def Let_def split: sum.splits py_error.splits)

text \<open>
  Claim C2. The splitter returns as observation set the transactions whose timestamp is
  strictly below \<open>observation_end\<close> and as outcome set those whose timestamp is at least
  \<open>outcome_start\<close>. The script raises the leakage error (a \<^verbatim>\<open>ValueError\<close>) exactly when some
  observation transaction is not strictly before some outcome transaction; when both windows
  hold transactions this is: the maximum observation timestamp is not strictly less than the
  minimum outcome timestamp.
\<close>

theorem split_and_leakage_guard:
  "split_by_time_window df oe os =
     (filter (\<lambda>t. invoice_date t < oe) df, filter (\<lambda>t. os \<le> invoice_date t) df) \<and>
   (\<forall>obs out. split_by_time_window df (observation_end cfg) (outcome_start cfg) = (obs, out) \<longrightarrow>
      (snd (run_pipeline cfg df st) = Inl ValueError \<longleftrightarrow>
         (\<exists>a\<in>set obs. \<exists>b\<in>set out. invoice_date b \<le> invoice_date a)) \<and>
      (obs \<noteq> [] \<and> out \<noteq> [] \<longrightarrow>
         (snd (run_pipeline cfg df st) = Inl ValueError \<longleftrightarrow>
            \<not> Max (invoice_date ` set obs) < Min (invoice_date ` set out))))"
proof (intro conjI allI impI)
  show "split_by_time_window df oe os =
     (filter (\<lambda>t. invoice_date t < oe) df, filter (\<lambda>t. os \<le> invoice_date t) df)"
    by (simp add: split_by_time_window_def)
next
  fix obs out
  assume "split_by_time_window df (observation_end cfg) (outcome_start cfg) = (obs, out)"
  then have eq: "obs = filter (\<lambda>t. invoice_date t < observation_end cfg) df"
    "out = filter (\<lambda>t. outcome_start cfg \<le> invoice_date t) df"
    by (simp_all add: split_by_time_window_def)
  show "snd (run_pipeline cfg df st) = Inl ValueError \<longleftrightarrow>
         (\<exists>a\<in>set obs. \<exists>b\<in>set out. invoice_date b \<le> invoice_date a)"
    unfolding run_pipeline_ValueError eq by (rule leakage_iff)
  assume "obs \<noteq> [] \<and> out \<noteq> []"
  then show "snd (run_pipeline cfg df st) = Inl ValueError \<longleftrightarrow>
            \<not> Max (invoice_date ` set obs) < Min (invoice_date ` set out)"
    unfolding run_pipeline_ValueError eq by (intro leakage_max_min) simp_all
qed

theorem split_and_leakage_guard_witness:
  "filter (\<lambda>t. invoice_date t < observation_end ex_leak_cfg) ex_df \<noteq> [] \<and>
   filter (\<lambda>t. outcome_start ex_leak_cfg \<le> invoice_date t) ex_df \<noteq> [] \<and>
   snd (run_pipeline ex_leak_cfg ex_df Map.empty) = Inl ValueError \<and>
   \<not> Max (invoice_date ` set (filter (\<lambda>t. invoice_date t < observation_end ex_leak_cfg) ex_df))
     < Min (invoice_date ` set (filter (\<lambda>t. outcome_start ex_leak_cfg \<le> invoice_date t) ex_df))"
proof -
  let ?obs = "filter (\<lambda>t. invoice_date t < observation_end ex_leak_cfg) ex_df"
  let ?out = "filter (\<lambda>t. outcome_start ex_leak_cfg \<le> invoice_date t) ex_df"
  have ne: "?obs \<noteq> [] \<and> ?out \<noteq> []"
    by code_simp
  have leak: "\<exists>a\<in>set ?obs. \<exists>b\<in>set ?out. invoice_date b \<le> invoice_date a"
    by code_simp
  have split: "split_by_time_window ex_df (observation_end ex_leak_cfg) (outcome_start ex_leak_cfg)
                 = (?obs, ?out)"
    by (simp add: split_by_time_window_def)
  from split_and_leakage_guard [of ex_df 0 0 ex_leak_cfg Map.empty] split ne leak
  show ?thesis by blast
qed

text \<open>
  Claim C10. When the observation window or the outcome window holds no transaction,
  \<^verbatim>\<open>check_data_leakage\<close> does not raise: the maximum or minimum of the empty column is
  \<^verbatim>\<open>NaT\<close>, which compares false against anything, so the guard lets the run pass.
\<close>

theorem empty_window_passes_guard:
  "observation_df = [] \<or> outcome_df = [] \<Longrightarrow>
     check_data_leakage observation_df outcome_df = Inr () \<and>
     (col_max (map invoice_date observation_df) = None \<or>
      col_min (map invoice_date outcome_df) = None) \<and>
     \<not> ts_ge None b \<and> \<not> ts_ge a None"
  by (auto simp: leakage_empty)

theorem empty_window_passes_guard_witness:
  "snd (split_by_time_window ex_df (observation_end ex_late_cfg) (outcome_start ex_late_cfg)) = [] \<and>
   check_data_leakage
     (fst (split_by_time_window ex_df (observation_end ex_late_cfg) (outcome_start ex_late_cfg)))
     (snd (split_by_time_window ex_df (observation_end ex_late_cfg) (outcome_start ex_late_cfg)))
     = Inr () \<and>
   raised (run_pipeline ex_late_cfg ex_df empty_store) = None \<and>
   map churned (features ex_late_cfg ex_obs []) = [Some 1, Some 1]"
proof -
  have e: "snd (split_by_time_window ex_df (observation_end ex_late_cfg) (outcome_start ex_late_cfg)) = []"
    by code_simp
  have r: "raised (run_pipeline ex_late_cfg ex_df empty_store) = None"
    by code_simp
  have c: "map churned (features ex_late_cfg ex_obs []) = [Some 1, Some 1]"
    by code_simp
  from empty_window_passes_guard [OF disjI2 [OF e]] e r c show ?thesis by blast
qed

section \<open>Columns of the feature row of one customer\<close>

lemma feature_at_key [simp]: "feat_customer_id (feature_at cfg obs out c) = c"
  by (simp add: feature_at_def feature_of_def Let_def)

lemma feature_ids: "map feat_customer_id (features cfg obs out) = eligible_customers cfg obs"
  by (simp add: features_eq comp_def)

lemma feature_row_cases:
  assumes "f \<in> set (features cfg obs out)"
  obtains c where "c \<in> set (eligible_customers cfg obs)" and "f = feature_at cfg obs out c"
  using assms by (auto simp: features_eq)

lemma set_purchase_customers:
  "set (purchase_customers out) = customer_id ` {t \<in> set out. quantity t > 0}"
  by (simp add: purchase_customers_def)

lemma feature_at_churned:
  "churned (feature_at cfg obs out c) =
     Some (if \<exists>t\<in>set out. customer_id t = c \<and> quantity t > 0 then 0 else 1)"
  by (auto simp: feature_at_def feature_of_def Let_def set_purchase_customers)

text \<open>
  Claim C3. Every eligible customer receives exactly one churn label, and the label is 1
  exactly when the customer has no line with a positive quantity in the outcome window
  (so also when the customer has no outcome line at all, or only return lines there), and
  0 otherwise; the merged feature table carries this label for each of its rows.
\<close>

theorem churn_label_iff:
  "map cl_customer_id (churn_labels eligible outcome_df) = eligible \<and>
   (\<forall>r\<in>set (churn_labels eligible outcome_df).
      (cl_churned r = 1 \<longleftrightarrow>
         \<not> (\<exists>t\<in>set outcome_df. customer_id t = cl_customer_id r \<and> quantity t > 0)) \<and>
      (cl_churned r = 0 \<longleftrightarrow>
         (\<exists>t\<in>set outcome_df. customer_id t = cl_customer_id r \<and> quantity t > 0))) \<and>
   map feat_customer_id (features cfg observation_df outcome_df) =
     eligible_customers cfg observation_df \<and>
   (\<forall>f\<in>set (features cfg observation_df outcome_df).
      churned f = Some (if \<exists>t\<in>set outcome_df. customer_id t = feat_customer_id f \<and> quantity t > 0
                        then 0 else 1))"
proof (intro conjI ballI)
  show "map cl_customer_id (churn_labels eligible outcome_df) = eligible"
    by (simp add: churn_labels_def comp_def)
next
  fix r assume "r \<in> set (churn_labels eligible outcome_df)"
  then obtain c where r: "r = \<lparr>cl_customer_id = c,
      cl_churned = (if \<not> (c \<in> set (purchase_customers outcome_df)) then 1 else 0)\<rparr>"
    by (auto simp: churn_labels_def)
  show "cl_churned r = 1 \<longleftrightarrow>
         \<not> (\<exists>t\<in>set outcome_df. customer_id t = cl_customer_id r \<and> quantity t > 0)"
    by (auto simp: r set_purchase_customers)
  show "cl_churned r = 0 \<longleftrightarrow>
         (\<exists>t\<in>set outcome_df. customer_id t = cl_customer_id r \<and> quantity t > 0)"
    by (auto simp: r set_purchase_customers)
next
  show "map feat_customer_id (features cfg observation_df outcome_df) =
     eligible_customers cfg observation_df"
    by (rule feature_ids)
next
  fix f assume "f \<in> set (features cfg observation_df outcome_df)"
  then obtain c where "f = feature_at cfg observation_df outcome_df c"
    by (rule feature_row_cases)
  then show "churned f = Some (if \<exists>t\<in>set outcome_df. customer_id t = feat_customer_id f \<and> quantity t > 0
                        then 0 else 1)"
    by (simp add: feature_at_churned)
qed

theorem churn_label_iff_witness:
  "map feat_customer_id ex_features = [1, 2] \<and>
   hd ex_features \<in> set ex_features \<and> last ex_features \<in> set ex_features \<and>
   (\<exists>t\<in>set ex_out. customer_id t = 1 \<and> quantity t > 0) \<and>
   churned (hd ex_features) = Some 0 \<and>
   \<not> (\<exists>t\<in>set ex_out. customer_id t = 2 \<and> quantity t > 0) \<and>
   churned (last ex_features) = Some 1"
proof -
  have i: "map feat_customer_id ex_features = [1, 2]"
    by code_simp
  then have ne: "ex_features \<noteq> []" by auto
  have k: "feat_customer_id (hd ex_features) = 1" "feat_customer_id (last ex_features) = 2"
    using i ne by (simp_all add: hd_map [symmetric] last_map [symmetric])
  have p: "(\<exists>t\<in>set ex_out. customer_id t = 1 \<and> quantity t > 0) \<and>
           \<not> (\<exists>t\<in>set ex_out. customer_id t = 2 \<and> quantity t > 0)"
    by code_simp
  have m: "hd ex_features \<in> set ex_features" "last ex_features \<in> set ex_features"
    using ne by simp_all
  from churn_label_iff [of "[1, 2]" ex_out ex_cfg ex_obs] m
  have "churned (hd ex_features) =
          Some (if \<exists>t\<in>set ex_out. customer_id t = feat_customer_id (hd ex_features) \<and> quantity t > 0
                then 0 else 1)"
    and "churned (last ex_features) =
          Some (if \<exists>t\<in>set ex_out. customer_id t = feat_customer_id (last ex_features) \<and> quantity t > 0
                then 0 else 1)"
    unfolding ex_features_def by blast+
  with i m k p show ?thesis by simp
qed

section \<open>Eligibility\<close>

lemma eligible_iff_aux:
  "c \<in> set (eligible_customers cfg obs) \<longleftrightarrow>
     c \<in> customer_id ` set obs \<and>
     Min (invoice_date ` {t \<in> set obs. customer_id t = c})
       \<le> observation_end cfg - min_tenure_days cfg * ns_per_day \<and>
     min_frequency cfg \<le> int (card (invoice ` {t \<in> set obs. customer_id t = c}))"
proof (cases "c \<in> customer_id ` set obs")
  case False
  then show ?thesis by (simp add: eligible_customers_filter set_group_keys)
next
  case True
  then have ne: "map invoice_date (group_of obs c) \<noteq> []"
    by (simp add: group_of_empty_iff)
  show ?thesis
    using True
    by (simp add: eligible_customers_filter set_group_keys col_min_eq [OF ne]
          nunique_card min_acquisition_date_def)
qed

text \<open>
  Claim C4. A customer is in the eligible set exactly when the customer has observation
  lines, the earliest of them is at most \<open>observation_end\<close> minus \<open>min_tenure_days\<close> days, and
  the number of distinct invoices among them is at least \<open>min_frequency\<close>. A customer with
  \<open>min_frequency - 1\<close> distinct invoices is excluded, one with exactly \<open>min_frequency\<close> that
  meets the tenure bound is included, and every row of the feature table belongs to an
  eligible customer.
\<close>

theorem eligible_iff:
  "(c \<in> set (eligible_customers cfg obs) \<longleftrightarrow>
     c \<in> customer_id ` set obs \<and>
     Min (invoice_date ` {t \<in> set obs. customer_id t = c})
       \<le> observation_end cfg - min_tenure_days cfg * ns_per_day \<and>
     min_frequency cfg \<le> int (card (invoice ` {t \<in> set obs. customer_id t = c}))) \<and>
   (int (card (invoice ` {t \<in> set obs. customer_id t = c})) = min_frequency cfg - 1
      \<longrightarrow> c \<notin> set (eligible_customers cfg obs)) \<and>
   (c \<in> customer_id ` set obs \<and>
    Min (invoice_date ` {t \<in> set obs. customer_id t = c})
       \<le> observation_end cfg - min_tenure_days cfg * ns_per_day \<and>
    int (card (invoice ` {t \<in> set obs. customer_id t = c})) = min_frequency cfg
      \<longrightarrow> c \<in> set (eligible_customers cfg obs)) \<and>
   (\<forall>f\<in>set (features cfg obs out). feat_customer_id f \<in> set (eligible_customers cfg obs))"
proof (intro conjI ballI)
  fix f assume "f \<in> set (features cfg obs out)"
  then show "feat_customer_id f \<in> set (eligible_customers cfg obs)"
    by (auto elim: feature_row_cases)
qed (simp_all add: eligible_iff_aux)

theorem eligible_iff_witness:
  "1 \<in> set (eligible_customers ex_cfg ex_obs) \<and>
   Min (invoice_date ` {t \<in> set ex_obs. customer_id t = 1})
       \<le> observation_end ex_cfg - min_tenure_days ex_cfg * ns_per_day \<and>
   min_frequency ex_cfg \<le> int (card (invoice ` {t \<in> set ex_obs. customer_id t = 1})) \<and>
   int (card (invoice ` {t \<in> set ex_obs. customer_id t = 3})) = min_frequency ex_cfg - 1 \<and>
   3 \<notin> set (eligible_customers ex_cfg ex_obs) \<and>
   hd ex_features \<in> set ex_features \<and>
   feat_customer_id (hd ex_features) \<in> set (eligible_customers ex_cfg ex_obs)"
proof -
  have m: "1 \<in> set (eligible_customers ex_cfg ex_obs)"
    by code_simp
  have n: "int (card (invoice ` {t \<in> set ex_obs. customer_id t = 3})) = min_frequency ex_cfg - 1"
    by code_simp
  have "ex_features \<noteq> []"
    by code_simp
  then have h: "hd ex_features \<in> set ex_features" by simp
  from eligible_iff [of 1 ex_cfg ex_obs ex_out] eligible_iff [of 3 ex_cfg ex_obs ex_out] m n h
  show ?thesis unfolding ex_features_def by blast
qed

section \<open>The columns of a feature row\<close>

lemma feature_at_cols:
  "frequency (feature_at cfg obs out c) = nunique (map invoice (group_of obs c))"
  "monetary_net (feature_at cfg obs out c) = sum_list (map total_amount (group_of obs c))"
  "monetary_gross (feature_at cfg obs out c) =
     sum_list (filter (\<lambda>x. 0 < x) (map total_amount (group_of obs c)))"
  "recency (feature_at cfg obs out c) =
     map_option (\<lambda>m. (observation_end cfg - m) div ns_per_day)
       (col_max (map invoice_date (group_of obs c)))"
  "days_as_customer (feature_at cfg obs out c) =
     days_between (col_max (map invoice_date (group_of obs c)))
       (col_min (map invoice_date (group_of obs c)))"
  "n_return_invoices (feature_at cfg obs out c) =
     Some (nunique (map invoice (filter is_return (group_of obs c))))"
  "return_amount (feature_at cfg obs out c) =
     Some \<bar>sum_list (map total_amount (filter is_return (group_of obs c)))\<bar>"
  "return_rate (feature_at cfg obs out c) =
     fdiv (of_int (nunique (map invoice (filter is_return (group_of obs c)))))
          (of_int (nunique (map invoice (group_of obs c))))"
  "has_returns (feature_at cfg obs out c) =
     Some (0 < nunique (map invoice (filter is_return (group_of obs c))))"
  "purchase_velocity (feature_at cfg obs out c) =
     Option.bind (days_between (col_max (map invoice_date (group_of obs c)))
                    (col_min (map invoice_date (group_of obs c))))
       (\<lambda>d. fdiv (of_int (nunique (map invoice (group_of obs c)))) (of_int (d + 1) / 30))"
  "avg_days_between_purchases (feature_at cfg obs out c) =
     Option.bind (days_between (col_max (map invoice_date (group_of obs c)))
                    (col_min (map invoice_date (group_of obs c))))
       (\<lambda>d. fdiv (of_int (d + 1)) (of_int (nunique (map invoice (group_of obs c)))))"
  by (simp_all add: feature_at_def feature_of_def behavioral_of_def returns_of_def rfm_agg_def
        behavioral_agg_def Let_def nunique_def)

lemma eligible_group_nonempty:
  "c \<in> set (eligible_customers cfg obs) \<Longrightarrow> group_of obs c \<noteq> []"
  using eligible_subset [of c cfg obs] by (simp add: group_of_empty_iff)

lemma nunique_pos: "xs \<noteq> [] \<Longrightarrow> 1 \<le> nunique xs"
proof -
  assume "xs \<noteq> []"
  then have "0 < card (set xs)" by (simp add: card_gt_0_iff)
  then show ?thesis by (simp add: nunique_card)
qed

lemma nunique_nonneg [simp]: "0 \<le> nunique xs"
  by (simp add: nunique_def)

lemma nunique_filter_le: "nunique (map f (filter P xs)) \<le> nunique (map f xs)"
  unfolding nunique_card by (auto intro!: card_mono)

lemma ns_per_day_pos [simp]: "0 < ns_per_day"
  by (simp add: ns_per_day_def)

lemma days_as_customer_nonneg:
  assumes "g \<noteq> []"
  shows "\<exists>d. days_between (col_max (map invoice_date g)) (col_min (map invoice_date g)) = Some d
             \<and> 0 \<le> d
             \<and> d = (Max (invoice_date ` set g) - Min (invoice_date ` set g)) div ns_per_day"
proof -
  from assms have ne: "map invoice_date g \<noteq> []" by simp
  from assms obtain t where t: "t \<in> set g" by (cases g) auto
  have "Min (invoice_date ` set g) \<le> invoice_date t" "invoice_date t \<le> Max (invoice_date ` set g)"
    using t by simp_all
  then have "Min (invoice_date ` set g) \<le> Max (invoice_date ` set g)"
    by (rule order_trans)
  then have "0 \<le> (Max (invoice_date ` set g) - Min (invoice_date ` set g)) div ns_per_day"
    by (simp add: pos_imp_zdiv_nonneg_iff)
  then show ?thesis
    by (simp add: col_max_eq [OF ne] col_min_eq [OF ne])
qed

lemma recency_nonneg:
  assumes "g \<noteq> []" and "\<forall>t\<in>set g. invoice_date t < oe"
  shows "\<exists>r. map_option (\<lambda>m. (oe - m) div ns_per_day) (col_max (map invoice_date g)) = Some r
             \<and> 0 \<le> r \<and> r = (oe - Max (invoice_date ` set g)) div ns_per_day"
proof -
  from assms have ne: "map invoice_date g \<noteq> []" by simp
  have "Max (invoice_date ` set g) < oe"
    using assms by simp
  then have "0 \<le> (oe - Max (invoice_date ` set g)) div ns_per_day"
    by (simp add: pos_imp_zdiv_nonneg_iff)
  then show ?thesis
    by (simp add: col_max_eq [OF ne])
qed

section \<open>Return metrics\<close>

lemma return_rate_bounds:
  assumes "g \<noteq> []"
  shows "fdiv (of_int (nunique (map invoice (filter is_return g)))) (of_int (nunique (map invoice g)))
           = Some (of_int (nunique (map invoice (filter is_return g))) / of_int (nunique (map invoice g)))"
    and "(0::rat) \<le> of_int (nunique (map invoice (filter is_return g))) / of_int (nunique (map invoice g))"
    and "of_int (nunique (map invoice (filter is_return g))) / of_int (nunique (map invoice g)) \<le> (1::rat)"
proof -
  have pos: "1 \<le> nunique (map invoice g)"
    using assms by (intro nunique_pos) simp
  then show "fdiv (of_int (nunique (map invoice (filter is_return g)))) (of_int (nunique (map invoice g)))
           = Some (of_int (nunique (map invoice (filter is_return g))) / of_int (nunique (map invoice g)))"
    by (simp add: fdiv_def)
  show "(0::rat) \<le> of_int (nunique (map invoice (filter is_return g))) / of_int (nunique (map invoice g))"
    by (intro divide_nonneg_nonneg) simp_all
  have "nunique (map invoice (filter is_return g)) \<le> nunique (map invoice g)"
    by (rule nunique_filter_le)
  then have "(of_int (nunique (map invoice (filter is_return g))) :: rat) \<le> of_int (nunique (map invoice g))"
    by simp
  moreover have "(0::rat) < of_int (nunique (map invoice g))"
    using pos by simp
  ultimately show "of_int (nunique (map invoice (filter is_return g))) / of_int (nunique (map invoice g)) \<le> (1::rat)"
    by (simp add: divide_le_eq_1)
qed

text \<open>
  Claim C5. The feature table has one row for every eligible customer, also for a customer
  without return lines. In each row \<open>frequency\<close> is at least 1, \<open>n_return_invoices\<close> is the
  number of distinct invoices among the customer's return lines, \<open>return_rate\<close> is
  \<open>n_return_invoices / frequency\<close> and lies between 0 and 1, and \<open>has_returns\<close> holds exactly
  when \<open>n_return_invoices\<close> is positive; for a customer without return lines the four return
  columns are 0, 0, 0 and false.
\<close>

theorem return_metrics:
  "map feat_customer_id (features cfg obs out) = eligible_customers cfg obs \<and>
   (\<forall>f\<in>set (features cfg obs out).
      \<exists>n a. n_return_invoices f = Some n \<and> return_amount f = Some a \<and>
        n = int (card (invoice ` {t \<in> set obs. customer_id t = feat_customer_id f \<and> is_return t})) \<and>
        frequency f = int (card (invoice ` {t \<in> set obs. customer_id t = feat_customer_id f})) \<and>
        1 \<le> frequency f \<and>
        return_rate f = Some (of_int n / of_int (frequency f)) \<and>
        (0::rat) \<le> of_int n / of_int (frequency f) \<and>
        of_int n / of_int (frequency f) \<le> (1::rat) \<and>
        has_returns f = Some (n > 0) \<and>
        ((\<forall>t\<in>set obs. customer_id t = feat_customer_id f \<longrightarrow> \<not> is_return t) \<longrightarrow>
           n = 0 \<and> a = 0 \<and> return_rate f = Some 0 \<and> has_returns f = Some False))"
proof (intro conjI ballI)
  show "map feat_customer_id (features cfg obs out) = eligible_customers cfg obs"
    by (rule feature_ids)
next
  fix f assume "f \<in> set (features cfg obs out)"
  then obtain c where c: "c \<in> set (eligible_customers cfg obs)" and f: "f = feature_at cfg obs out c"
    by (rule feature_row_cases)
  let ?g = "group_of obs c"
  have ne: "?g \<noteq> []" using c by (rule eligible_group_nonempty)
  have sets: "set (filter is_return ?g) = {t \<in> set obs. customer_id t = c \<and> is_return t}"
    by auto
  have noret: "filter is_return ?g = []" if "\<forall>t\<in>set obs. customer_id t = c \<longrightarrow> \<not> is_return t"
    using that by (auto simp: filter_empty_conv)
  show "\<exists>n a. n_return_invoices f = Some n \<and> return_amount f = Some a \<and>
        n = int (card (invoice ` {t \<in> set obs. customer_id t = feat_customer_id f \<and> is_return t})) \<and>
        frequency f = int (card (invoice ` {t \<in> set obs. customer_id t = feat_customer_id f})) \<and>
        1 \<le> frequency f \<and>
        return_rate f = Some (of_int n / of_int (frequency f)) \<and>
        (0::rat) \<le> of_int n / of_int (frequency f) \<and>
        of_int n / of_int (frequency f) \<le> (1::rat) \<and>
        has_returns f = Some (n > 0) \<and>
        ((\<forall>t\<in>set obs. customer_id t = feat_customer_id f \<longrightarrow> \<not> is_return t) \<longrightarrow>
           n = 0 \<and> a = 0 \<and> return_rate f = Some 0 \<and> has_returns f = Some False)"
  proof (intro exI conjI impI)
    show "n_return_invoices f = Some (nunique (map invoice (filter is_return ?g)))"
      by (simp add: f feature_at_cols)
    show "return_amount f = Some \<bar>sum_list (map total_amount (filter is_return ?g))\<bar>"
      by (simp add: f feature_at_cols)
    show "nunique (map invoice (filter is_return ?g)) =
          int (card (invoice ` {t \<in> set obs. customer_id t = feat_customer_id f \<and> is_return t}))"
      by (simp add: f nunique_card sets del: set_filter)
    show "frequency f = int (card (invoice ` {t \<in> set obs. customer_id t = feat_customer_id f}))"
      by (simp add: f feature_at_cols nunique_card)
    show "1 \<le> frequency f"
      using ne by (simp add: f feature_at_cols nunique_pos)
    show "return_rate f = Some (of_int (nunique (map invoice (filter is_return ?g))) / of_int (frequency f))"
      by (simp add: f feature_at_cols return_rate_bounds(1) [OF ne])
    show "(0::rat) \<le> of_int (nunique (map invoice (filter is_return ?g))) / of_int (frequency f)"
      using return_rate_bounds(2) [OF ne] by (simp add: f feature_at_cols)
    show "of_int (nunique (map invoice (filter is_return ?g))) / of_int (frequency f) \<le> (1::rat)"
      using return_rate_bounds(3) [OF ne] by (simp add: f feature_at_cols)
    show "has_returns f = Some (0 < nunique (map invoice (filter is_return ?g)))"
      by (simp add: f feature_at_cols)
  next
    assume a: "\<forall>t\<in>set obs. customer_id t = feat_customer_id f \<longrightarrow> \<not> is_return t"
    then have e: "filter is_return ?g = []"
      by (intro noret) (simp add: f)
    show "nunique (map invoice (filter is_return ?g)) = 0"
      by (simp add: e nunique_def)
    show "\<bar>sum_list (map total_amount (filter is_return ?g))\<bar> = 0"
      by (simp add: e)
    show "return_rate f = Some 0"
      using ne by (simp add: f feature_at_cols e nunique_def fdiv_def)
    show "has_returns f = Some False"
      by (simp add: f feature_at_cols e nunique_def)
  qed
qed

theorem return_metrics_witness:
  "map feat_customer_id ex_features = [1, 2] \<and>
   map return_rate ex_features = [Some (1 / 2), Some 0] \<and>
   last ex_features \<in> set ex_features \<and>
   \<not> (\<exists>t\<in>set ex_obs. customer_id t = feat_customer_id (last ex_features) \<and> is_return t) \<and>
   n_return_invoices (last ex_features) = Some 0 \<and>
   return_amount (last ex_features) = Some 0 \<and>
   return_rate (last ex_features) = Some 0 \<and>
   has_returns (last ex_features) = Some False \<and>
   1 \<le> frequency (last ex_features)"
proof -
  have i: "map feat_customer_id ex_features = [1, 2]"
    by code_simp
  then have ne: "ex_features \<noteq> []" by auto
  then have m: "last ex_features \<in> set ex_features" by simp
  have k: "feat_customer_id (last ex_features) = 2"
    using i ne by (simp add: last_map [symmetric])
  have r: "map return_rate ex_features = [Some (1 / 2), Some 0]"
    by code_simp
  have n: "\<forall>t\<in>set ex_obs. customer_id t = 2 \<longrightarrow> \<not> is_return t"
    by code_simp
  from return_metrics [of ex_cfg ex_obs ex_out] m
  obtain n a where "n_return_invoices (last ex_features) = Some n"
    "return_amount (last ex_features) = Some a" "1 \<le> frequency (last ex_features)"
    "(\<forall>t\<in>set ex_obs. customer_id t = feat_customer_id (last ex_features) \<longrightarrow> \<not> is_return t) \<longrightarrow>
       n = 0 \<and> a = 0 \<and> return_rate (last ex_features) = Some 0 \<and>
       has_returns (last ex_features) = Some False"
    unfolding ex_features_def by blast
  with i r m k n show ?thesis by auto
qed

section \<open>Monetary metrics\<close>

lemma sum_list_pos_filter_nonneg: "(0::rat) \<le> sum_list (filter (\<lambda>x. 0 < x) xs)"
  by (induction xs) simp_all





section \<open>Temporal features\<close>

text \<open>
  Claim C7. When every observation line is strictly before \<open>observation_end\<close>, as the lines
  returned by the splitter are, every row of the feature table has a recency and a
  \<open>days_as_customer\<close>, both at least 0: the recency is the whole number of days from the
  customer's last line to \<open>observation_end\<close>, and \<open>days_as_customer\<close> the whole number of
  days from the first line to the last.
\<close>

theorem recency_and_tenure_nonneg:
  assumes "\<forall>t\<in>set obs. invoice_date t < observation_end cfg"
  shows "\<forall>f\<in>set (features cfg obs out).
      \<exists>r d. recency f = Some r \<and> 0 \<le> r \<and> days_as_customer f = Some d \<and> 0 \<le> d \<and>
        r = (observation_end cfg
               - Max (invoice_date ` {t \<in> set obs. customer_id t = feat_customer_id f})) div ns_per_day \<and>
        d = (Max (invoice_date ` {t \<in> set obs. customer_id t = feat_customer_id f})
               - Min (invoice_date ` {t \<in> set obs. customer_id t = feat_customer_id f})) div ns_per_day"
proof
  fix f assume "f \<in> set (features cfg obs out)"
  then obtain c where c: "c \<in> set (eligible_customers cfg obs)" and f: "f = feature_at cfg obs out c"
    by (rule feature_row_cases)
  let ?g = "group_of obs c"
  have ne: "?g \<noteq> []" using c by (rule eligible_group_nonempty)
  have before: "\<forall>t\<in>set ?g. invoice_date t < observation_end cfg"
    using assms by simp
  from recency_nonneg [OF ne before] days_as_customer_nonneg [OF ne]
  show "\<exists>r d. recency f = Some r \<and> 0 \<le> r \<and> days_as_customer f = Some d \<and> 0 \<le> d \<and>
        r = (observation_end cfg
               - Max (invoice_date ` {t \<in> set obs. customer_id t = feat_customer_id f})) div ns_per_day \<and>
        d = (Max (invoice_date ` {t \<in> set obs. customer_id t = feat_customer_id f})
               - Min (invoice_date ` {t \<in> set obs. customer_id t = feat_customer_id f})) div ns_per_day"
    by (auto simp: f feature_at_cols)
qed

theorem recency_and_tenure_nonneg_witness:
  "ex_obs = fst (split_by_time_window ex_df (observation_end ex_cfg) (outcome_start ex_cfg)) \<and>
   \<not> (\<exists>t\<in>set ex_obs. observation_end ex_cfg \<le> invoice_date t) \<and>
   map recency ex_features = [Some 12, Some 440] \<and>
   hd ex_features \<in> set ex_features \<and>
   (\<exists>r d. recency (hd ex_features) = Some r \<and> 0 \<le> r \<and>
          days_as_customer (hd ex_features) = Some d \<and> 0 \<le> d)"
proof -
  have h: "\<forall>t\<in>set ex_obs. invoice_date t < observation_end ex_cfg"
    by (simp add: ex_obs_def split_by_time_window_def)
  have r: "map recency ex_features = [Some 12, Some 440]"
    by code_simp
  then have "ex_features \<noteq> []" by auto
  then have m: "hd ex_features \<in> set ex_features" by simp
  from recency_and_tenure_nonneg [OF h, of ex_out] m
  have "\<exists>r d. recency (hd ex_features) = Some r \<and> 0 \<le> r \<and>
          days_as_customer (hd ex_features) = Some d \<and> 0 \<le> d"
    unfolding ex_features_def by blast
  with h r m show ?thesis
    by (simp only: ex_obs_def [symmetric] simp_thms) (auto simp: not_le)
qed




section \<open>Quality checks and export\<close>





text \<open>In a run of the whole script none of the four conditions arises.\<close>

lemma lt0_iff: "lt0 x \<longleftrightarrow> (\<exists>r. x = Some r \<and> r < 0)"
  by (cases x) simp_all

lemma run_never_fatal:
  assumes "\<forall>t\<in>set obs. invoice_date t < observation_end cfg"
  shows "\<not> fatal_check_fails (features cfg obs out)"
proof -
  have "\<not> lt0 (recency f) \<and> churned f \<noteq> None \<and> \<not> monetary_gross f < 0"
    if "f \<in> set (features cfg obs out)" for f
  proof -
    from that obtain c where c: "c \<in> set (eligible_customers cfg obs)"
      and f: "f = feature_at cfg obs out c"
      by (rule feature_row_cases)
    have ne: "group_of obs c \<noteq> []" using c by (rule eligible_group_nonempty)
    have before: "\<forall>t\<in>set (group_of obs c). invoice_date t < observation_end cfg"
      using assms by simp
    from recency_nonneg [OF ne before] have "\<not> lt0 (recency f)"
      by (auto simp: f feature_at_cols lt0_iff)
    moreover have "churned f \<noteq> None"
      by (simp add: f feature_at_churned)
    moreover have "\<not> monetary_gross f < 0"
      by (simp add: f feature_at_cols sum_list_pos_filter_nonneg not_less)
    ultimately show ?thesis by blast
  qed
  moreover have "distinct (map feat_customer_id (features cfg obs out))"
    by (simp add: feature_ids)
  ultimately show ?thesis
    by (auto simp: fatal_check_fails_def list_ex_iff)
qed




section \<open>Runs of the whole script\<close>



end
